theory Spec2Isabelle
  imports Main "HOL-Library.Word"
begin

section \<open>JavaScript values and strings\<close>

text \<open>
  The chat panel passes the fields of the parsed assistant reply on without looking at
  their types, so the model keeps them as JavaScript values. \<open>JUndefined\<close> is what
  a property read gives when the property is absent. Numbers are the 32-bit signed
  integers only, which JavaScript holds and prints exactly; a string is a list of code
  units below 256. An object is the list of its own properties,
  each key once.
\<close>

datatype js =
    JUndefined
  | JNull
  | JBool bool
  | JNum "32 word"
  | JStr string
  | JArr "js list"
  | JObj "(string \<times> js) list"

text \<open>Truthiness, as \<^verbatim>\<open>parsedResponse && ...\<close> tests it.\<close>

fun truthy :: "js \<Rightarrow> bool" where
  "truthy JUndefined = False"
| "truthy JNull = False"
| "truthy (JBool b) = b"
| "truthy (JNum n) = (n \<noteq> 0)"
| "truthy (JStr s) = (s \<noteq> [])"
| "truthy (JArr xs) = True"
| "truthy (JObj kvs) = True"

text \<open>
  A property read \<^verbatim>\<open>v.key\<close> for the keys the program reads (\<open>type\<close>,
  \<open>action\<close>, \<open>content\<close>, \<open>explanation\<close>): an object answers with its own
  property, every other truthy value with \<open>undefined\<close>.
\<close>

fun js_get :: "js \<Rightarrow> string \<Rightarrow> js" where
  "js_get (JObj kvs) k = (case map_of kvs k of None \<Rightarrow> JUndefined | Some v \<Rightarrow> v)"
| "js_get v k = JUndefined"

text \<open>Decimal digits of a natural number (\<^verbatim>\<open>Number.prototype.toString\<close>).\<close>

definition digit_char :: "nat \<Rightarrow> char" where
  "digit_char d = char_of (48 + d)"

fun show_nat :: "nat \<Rightarrow> string" where
  "show_nat n = (if n < 10 then [digit_char n] else show_nat (n div 10) @ [digit_char (n mod 10)])"

declare show_nat.simps [simp del]

definition show_int :: "int \<Rightarrow> string" where
  "show_int i = (if i < 0 then CHR ''-'' # show_nat (nat (- i)) else show_nat (nat i))"

fun join_with :: "string \<Rightarrow> string list \<Rightarrow> string" where
  "join_with sep [] = []"
| "join_with sep [x] = x"
| "join_with sep (x # y # ys) = x @ sep @ join_with sep (y # ys)"

text \<open>
  \<^verbatim>\<open>'\n' + text\<close> converts \<open>text\<close> to a string. \<open>ToString\<close> is that
  conversion; an array joins its elements with commas, \<open>null\<close> and \<open>undefined\<close>
  elements as the empty string.
\<close>

fun ToString :: "js \<Rightarrow> string" where
  "ToString JUndefined = ''undefined''"
| "ToString JNull = ''null''"
| "ToString (JBool b) = (if b then ''true'' else ''false'')"
| "ToString (JNum n) = show_int (sint n)"
| "ToString (JStr s) = s"
| "ToString (JArr xs) =
     join_with '','' (map (\<lambda>x. if x = JNull \<or> x = JUndefined then [] else ToString x) xs)"
| "ToString (JObj kvs) = ''[object Object]''"

text \<open>
  \<^verbatim>\<open>String.prototype.trim\<close>: white space and line terminators are stripped at
  both ends. Of the code units below 256 these are tab, line feed, vertical tab, form
  feed, carriage return, space and no-break space.
\<close>

definition is_ws :: "char \<Rightarrow> bool" where
  "is_ws c = (of_char c \<in> {9, 10, 11, 12, 13, 32, 160 :: nat})"

definition trim :: "string \<Rightarrow> string" where
  "trim s = rev (dropWhile is_ws (rev (dropWhile is_ws s)))"

section \<open>The editor\<close>

text \<open>
  Modelled from the spec: the Document Model Adapter. The editor object behind
  \<^verbatim>\<open>editorRef\<close> is the Slate editor wrapped by its history plugin
  (\<^verbatim>\<open>withHistory(withReact(createEditor()))\<close>), a library that is not part of the
  repository. The model keeps what the program reads and calls on it: the document as
  the plain text of one text node, the selection (\<open>None\<close> is \<^verbatim>\<open>null\<close>; a range
  is its anchor and focus offsets, a caret is a range with both equal), the undo and redo
  histories, newest batch first, and the number of operations applied since the editor
  last notified its listeners (\<^verbatim>\<open>editor.operations.length\<close>). No marks are set.
\<close>

type_synonym range = "nat \<times> nat"

text \<open>Modelled from the spec: the two text operations of the editor. Each holds its
  offset, the text as the document receives it, and the \<^verbatim>\<open>text.length\<close> the editor
  computes with (for a string, its length).\<close>

datatype operation = insert_text nat string nat | remove_text nat string nat

record batch =
  b_operations :: "operation list"
  b_selectionBefore :: "range option"

record editor =
  doc :: string
  selection :: "range option"
  undos :: "batch list"
  redos :: "batch list"
  operations :: nat

text \<open>Modelled from the spec: what an operation does to the text and to a point of the
  selection (the editor's \<^verbatim>\<open>transform\<close> and \<^verbatim>\<open>Point.transform\<close>), and
  \<^verbatim>\<open>Operation.inverse\<close>.\<close>

fun transform_doc :: "operation \<Rightarrow> string \<Rightarrow> string" where
  "transform_doc (insert_text off t n) d = (if n = 0 then d else take off d @ t @ drop off d)"
| "transform_doc (remove_text off t n) d = (if n = 0 then d else take off d @ drop (off + n) d)"

fun move_point :: "operation \<Rightarrow> nat \<Rightarrow> nat" where
  "move_point (insert_text off t n) p = (if off \<le> p then p + n else p)"
| "move_point (remove_text off t n) p = (if off \<le> p then p - min (p - off) n else p)"

fun inverse_op :: "operation \<Rightarrow> operation" where
  "inverse_op (insert_text off t n) = remove_text off t n"
| "inverse_op (remove_text off t n) = insert_text off t n"

definition transform :: "operation \<Rightarrow> editor \<Rightarrow> editor" where
  "transform op e =
     e\<lparr>doc := transform_doc op (doc e),
       selection := map_option (\<lambda>(a, f). (move_point op a, move_point op f)) (selection e),
       operations := Suc (operations e)\<rparr>"

text \<open>Modelled from the spec: the history plugin's \<^verbatim>\<open>apply\<close> for a text operation.
  The operation joins the newest batch when an operation has already been applied in
  the same tick, or when it continues the batch's last operation (\<open>shouldMerge\<close>: an
  insert right behind the last insert, a removal right before the last removal);
  otherwise it opens a batch of its own, which remembers the selection. At most 100
  batches are kept, and the redo history is emptied.\<close>

fun shouldMerge :: "operation \<Rightarrow> operation \<Rightarrow> bool" where
  "shouldMerge (insert_text off t n) (insert_text poff pt pn) = (off = poff + pn)"
| "shouldMerge (remove_text off t n) (remove_text poff pt pn) = (off + n = poff)"
| "shouldMerge op prev = False"

definition continues :: "operation \<Rightarrow> batch \<Rightarrow> bool" where
  "continues op b =
     (case rev (b_operations b) of [] \<Rightarrow> False | lastOp # _ \<Rightarrow> shouldMerge op lastOp)"

definition ed_apply :: "operation \<Rightarrow> editor \<Rightarrow> editor" where
  "ed_apply op e =
     transform op
       (e\<lparr>undos :=
            take 100
              (case undos e of
                 [] \<Rightarrow> [\<lparr>b_operations = [op], b_selectionBefore = selection e\<rparr>]
               | lastBatch # older \<Rightarrow>
                   if operations e \<noteq> 0 \<or> continues op lastBatch
                   then lastBatch\<lparr>b_operations := b_operations lastBatch @ [op]\<rparr> # older
                   else \<lparr>b_operations = [op], b_selectionBefore = selection e\<rparr> #
                        lastBatch # older),
          redos := []\<rparr>)"

text \<open>Modelled from the spec: a \<^verbatim>\<open>set_selection\<close> operation counts as an operation
  of the tick but is not saved in the history. \<^verbatim>\<open>Transforms.setSelection\<close> applies
  one only when there is a selection and it differs; \<^verbatim>\<open>editor.select(target)\<close>
  (with \<^verbatim>\<open>editor.end([])\<close>, moveToEnd of the adapter) also sets a first
  selection.\<close>

definition set_selection :: "range \<Rightarrow> editor \<Rightarrow> editor" where
  "set_selection r e = e\<lparr>selection := Some r, operations := Suc (operations e)\<rparr>"

definition setSelection :: "range \<Rightarrow> editor \<Rightarrow> editor" where
  "setSelection r e =
     (case selection e of None \<Rightarrow> e | Some s \<Rightarrow> if s = r then e else set_selection r e)"

definition ed_select :: "range \<Rightarrow> editor \<Rightarrow> editor" where
  "ed_select r e = (if selection e = Some r then e else set_selection r e)"

definition ed_end :: "editor \<Rightarrow> range" where
  "ed_end e = (length (doc e), length (doc e))"

text \<open>Modelled from the spec: \<^verbatim>\<open>editor.insertText(text)\<close> (replaceSelection and
  insertAtCursor of the adapter). Without a selection it does nothing. With one, a
  selected range is removed first and the caret set where it began; then the editor
  reads \<^verbatim>\<open>text.length\<close>, which throws for \<open>undefined\<close> and \<open>null\<close>, and
  inserts the text at the caret when that length is greater than zero. \<open>text_length\<close>
  is that read: a number or a truth value has no length and is never inserted, an array
  has its number of elements; for an object the read is modelled when its \<open>length\<close>
  is absent or a number.\<close>

fun text_length :: "js \<Rightarrow> nat option" where
  "text_length JUndefined = None"
| "text_length JNull = None"
| "text_length (JBool b) = Some 0"
| "text_length (JNum n) = Some 0"
| "text_length (JStr s) = Some (length s)"
| "text_length (JArr xs) = Some (length xs)"
| "text_length (JObj kvs) =
     (case map_of kvs ''length'' of Some (JNum n) \<Rightarrow> Some (nat (sint n)) | _ \<Rightarrow> Some 0)"

definition delete_selected :: "editor \<Rightarrow> editor" where
  "delete_selected e =
     (case selection e of
        None \<Rightarrow> e
      | Some (a, f) \<Rightarrow>
          if a = f then e
          else
            let removed = take (max a f - min a f) (drop (min a f) (doc e))
            in setSelection (min a f, min a f)
                 (if removed = [] then e
                  else ed_apply (remove_text (min a f) removed (length removed)) e))"

datatype 'a res = Ok 'a | Throw 'a

fun res_state :: "'a res \<Rightarrow> 'a" where
  "res_state (Ok x) = x"
| "res_state (Throw x) = x"

definition ed_insertText :: "js \<Rightarrow> editor \<Rightarrow> editor res" where
  "ed_insertText text e =
     (case selection e of
        None \<Rightarrow> Ok e
      | Some (a, f) \<Rightarrow>
          (case text_length text of
             None \<Rightarrow> Throw (delete_selected e)
           | Some n \<Rightarrow>
               if n > 0
               then Ok (ed_apply (insert_text (min a f) (ToString text) n) (delete_selected e))
               else Ok (delete_selected e)))"

text \<open>Modelled from the spec: \<^verbatim>\<open>editor.undo()\<close> (undoLastOperation of the
  adapter). The operations of the newest batch are inverted and applied last to first,
  without being saved; the selection the batch remembered is set again when there is
  one; the batch moves to the redo history.\<close>

definition ed_undo :: "editor \<Rightarrow> editor" where
  "ed_undo e =
     (case undos e of
        [] \<Rightarrow> e
      | b # older \<Rightarrow>
          let e1 = fold transform (map inverse_op (rev (b_operations b))) e;
              e2 = (case b_selectionBefore b of None \<Rightarrow> e1 | Some r \<Rightarrow> setSelection r e1)
          in e2\<lparr>undos := older, redos := b # redos e\<rparr>)"

text \<open>Modelled from the spec: once the handler that applied operations has run, the
  editor notifies its listeners and empties \<^verbatim>\<open>editor.operations\<close>.\<close>

definition ed_flush :: "editor \<Rightarrow> editor" where
  "ed_flush e = e\<lparr>operations := 0\<rparr>"

text \<open>Modelled from the spec: \<^verbatim>\<open>editor.string(range)\<close> (getSelection of the
  adapter), the text between the two ends of a range.\<close>

definition ed_string :: "editor \<Rightarrow> range \<Rightarrow> string" where
  "ed_string e r = (case r of (a, f) \<Rightarrow> take (max a f - min a f) (drop (min a f) (doc e)))"

section \<open>The editor context\<close>

text \<open>
  \<^verbatim>\<open>EditorProvider\<close> holds \<^verbatim>\<open>editorRef\<close>, which is \<^verbatim>\<open>null\<close> until the
  editor component has mounted, and wraps the editor's calls. A call either returns or
  throws; in both cases the editor is left in some state.
\<close>

definition insertText :: "js \<Rightarrow> editor option \<Rightarrow> editor option res" where
  "insertText text editorRef =
     (case editorRef of
        None \<Rightarrow> Ok None
      | Some e \<Rightarrow> (case ed_insertText text e of Ok e' \<Rightarrow> Ok (Some e') | Throw e' \<Rightarrow> Throw (Some e')))"

definition replaceSelection :: "js \<Rightarrow> editor option \<Rightarrow> editor option res" where
  "replaceSelection newText editorRef =
     (case editorRef of
        None \<Rightarrow> Ok None
      | Some e \<Rightarrow> (case ed_insertText newText e of Ok e' \<Rightarrow> Ok (Some e') | Throw e' \<Rightarrow> Throw (Some e')))"

text \<open>\<^verbatim>\<open>'\n' + text\<close> is a string whatever \<open>text\<close> is, so this insert never
  throws.\<close>

definition insertAtEnd :: "js \<Rightarrow> editor option \<Rightarrow> editor option" where
  "insertAtEnd text editorRef =
     (case editorRef of
        None \<Rightarrow> None
      | Some e \<Rightarrow>
          let sel = selection e;
              end_pt = ed_end e;
              e1 = ed_select end_pt e;
              e2 = res_state (ed_insertText (JStr (CHR 0x0A # ToString text)) e1)
          in Some (case sel of None \<Rightarrow> e2 | Some r \<Rightarrow> ed_select r e2))"

definition undoLastChange :: "editor option \<Rightarrow> editor option" where
  "undoLastChange editorRef =
     (case editorRef of
        None \<Rightarrow> None
      | Some e \<Rightarrow> if length (undos e) > 0 then Some (ed_undo e) else Some e)"

definition getSelectedText :: "editor option \<Rightarrow> string" where
  "getSelectedText editorRef =
     (case editorRef of
        None \<Rightarrow> []
      | Some e \<Rightarrow> (case selection e of None \<Rightarrow> [] | Some r \<Rightarrow> ed_string e r))"

section \<open>Suggestions\<close>

text \<open>
  The suggestion object that \<^verbatim>\<open>handleSendMessage\<close> builds. \<open>s_range\<close> and
  \<open>s_position\<close> are the optional \<^verbatim>\<open>range\<close> and \<^verbatim>\<open>position\<close> that
  \<^verbatim>\<open>applySuggestion\<close> looks for; the chat panel never sets them.
\<close>

record suggestion =
  s_id :: nat
  s_type :: js
  s_content :: js
  s_explanation :: js
  s_applied :: bool
  s_originalRequest :: string
  s_timestamp :: nat
  s_range :: "range option"
  s_position :: "nat option"

definition select_then_insert :: "range \<Rightarrow> js \<Rightarrow> editor \<Rightarrow> editor option res" where
  "select_then_insert r text e =
     (case ed_insertText text (ed_select r e) of
        Ok e' \<Rightarrow> Ok (Some e') | Throw e' \<Rightarrow> Throw (Some e'))"

definition applySuggestion :: "suggestion \<Rightarrow> editor option \<Rightarrow> editor option res" where
  "applySuggestion suggestion editorRef =
     (case editorRef of
        None \<Rightarrow> Ok None
      | Some e \<Rightarrow>
          if s_type suggestion = JStr ''replace'' then
            (case s_range suggestion of
               Some r \<Rightarrow> select_then_insert r (s_content suggestion) e
             | None \<Rightarrow> replaceSelection (s_content suggestion) editorRef)
          else if s_type suggestion = JStr ''insert'' then
            (case s_position suggestion of
               Some p \<Rightarrow> select_then_insert (p, p) (s_content suggestion) e
             | None \<Rightarrow> insertText (s_content suggestion) editorRef)
          else if s_type suggestion = JStr ''append'' then
            Ok (insertAtEnd (s_content suggestion) editorRef)
          else insertText (s_content suggestion) editorRef)"

section \<open>The store\<close>

text \<open>
  The part of the \<^verbatim>\<open>useSOWStore\<close> state that the chat and suggestion components
  use, together with the state those components share through the editor context
  (\<open>editorRef\<close>, \<open>editorValue\<close>) and the chat panel's input box (\<open>inputValue\<close>).
  Times are the readings of the clock (\<^verbatim>\<open>Date.now()\<close>) that the caller passes in;
  an id made from the clock is kept as that number.
\<close>

datatype role = user | assistant

record message =
  m_id :: nat
  m_role :: role
  m_content :: js
  m_explanation :: js
  m_suggestion :: "suggestion option"
  m_hasSuggestion :: bool
  m_timestamp :: nat

datatype status = accepted | rejected

text \<open>An entry of \<^verbatim>\<open>suggestionHistory\<close>: the suggestion, spread, with its
  \<^verbatim>\<open>status\<close> and \<^verbatim>\<open>acceptedAt\<close> or \<^verbatim>\<open>rejectedAt\<close>.\<close>

record resolved =
  r_suggestion :: suggestion
  r_status :: status
  r_acceptedAt :: "nat option"
  r_rejectedAt :: "nat option"

record app =
  chatMessages :: "message list"
  isClaudeTyping :: bool
  pendingSuggestion :: "suggestion option"
  suggestionHistory :: "resolved list"
  editorRef :: "editor option"
  editorValue :: string
  inputValue :: string

definition addChatMessage :: "nat \<Rightarrow> message \<Rightarrow> app \<Rightarrow> app" where
  "addChatMessage now msg w =
     w\<lparr>chatMessages := chatMessages w @ [msg\<lparr>m_id := now, m_timestamp := now\<rparr>]\<rparr>"

definition setClaudeTyping :: "bool \<Rightarrow> app \<Rightarrow> app" where
  "setClaudeTyping isTyping w = w\<lparr>isClaudeTyping := isTyping\<rparr>"

definition setPendingSuggestion :: "suggestion option \<Rightarrow> app \<Rightarrow> app" where
  "setPendingSuggestion sg w = w\<lparr>pendingSuggestion := sg\<rparr>"

text \<open>
  The store's object literal has two properties named \<^verbatim>\<open>acceptSuggestion\<close> and two
  named \<^verbatim>\<open>rejectSuggestion\<close>; the later ones, which take no argument and work on
  \<^verbatim>\<open>pendingSuggestion\<close>, are the ones in effect.
\<close>

definition acceptSuggestion :: "nat \<Rightarrow> app \<Rightarrow> app" where
  "acceptSuggestion now w =
     (case pendingSuggestion w of
        None \<Rightarrow> w
      | Some p \<Rightarrow>
          w\<lparr>suggestionHistory := suggestionHistory w @
               [\<lparr>r_suggestion = p, r_status = accepted, r_acceptedAt = Some now, r_rejectedAt = None\<rparr>],
            pendingSuggestion := None\<rparr>)"

definition rejectSuggestion :: "nat \<Rightarrow> app \<Rightarrow> app" where
  "rejectSuggestion now w =
     (case pendingSuggestion w of
        None \<Rightarrow> w
      | Some p \<Rightarrow>
          w\<lparr>suggestionHistory := suggestionHistory w @
               [\<lparr>r_suggestion = p, r_status = rejected, r_acceptedAt = None, r_rejectedAt = Some now\<rparr>],
            pendingSuggestion := None\<rparr>)"

definition clearPendingSuggestion :: "app \<Rightarrow> app" where
  "clearPendingSuggestion w = w\<lparr>pendingSuggestion := None\<rparr>"

section \<open>The chat panel\<close>

text \<open>
  \<^verbatim>\<open>handleSendMessage\<close> is asynchronous: it runs up to the call of the assistant
  service, and resumes when the service has answered or failed. The two halves are
  \<open>handleSendMessage\<close>, which returns the request it dispatches (\<open>None\<close> when it
  returns at its guard), and \<open>handleSendMessage_reply\<close>. A handler that has called
  the editor leaves it notified (\<open>ed_flush\<close>): the notification runs before any
  later event.
\<close>

record request =
  q_userMessage :: string
  q_currentContent :: string
  q_selectedText :: string
  q_hasSelection :: bool

definition user_message :: "string \<Rightarrow> message" where
  "user_message text =
     \<lparr>m_id = 0, m_role = user, m_content = JStr text, m_explanation = JUndefined,
      m_suggestion = None, m_hasSuggestion = False, m_timestamp = 0\<rparr>"

definition assistant_message :: "js \<Rightarrow> message" where
  "assistant_message c =
     \<lparr>m_id = 0, m_role = assistant, m_content = c, m_explanation = JUndefined,
      m_suggestion = None, m_hasSuggestion = False, m_timestamp = 0\<rparr>"

definition suggestion_message :: "js \<Rightarrow> js \<Rightarrow> suggestion \<Rightarrow> message" where
  "suggestion_message c ex sg =
     \<lparr>m_id = 0, m_role = assistant, m_content = c, m_explanation = ex,
      m_suggestion = Some sg, m_hasSuggestion = True, m_timestamp = 0\<rparr>"

definition apology :: string where
  "apology = ''I apologize, but I encountered an error while processing your request. Please check your AWS configuration.''"

definition handleSendMessage :: "nat \<Rightarrow> app \<Rightarrow> app \<times> request option" where
  "handleSendMessage now w =
     (if trim (inputValue w) = [] \<or> isClaudeTyping w then (w, None)
      else
        let content = trim (inputValue w);
            w1 = addChatMessage now (user_message content) w;
            w2 = w1\<lparr>inputValue := []\<rparr>;
            w3 = setClaudeTyping True w2;
            selectedText = getSelectedText (editorRef w3)
        in (w3, Some \<lparr>q_userMessage = content, q_currentContent = editorValue w3,
                       q_selectedText = selectedText,
                       q_hasSelection = (length selectedText > 0)\<rparr>))"

text \<open>
  What the service call came back with: it failed, or it returned \<open>response\<close>, of
  which \<^verbatim>\<open>JSON.parse\<close> either made a value or threw (\<open>None\<close>).
\<close>

datatype reply = SendFailed | Response string "js option"

text \<open>The decision between a structured suggestion and a regular chat response
  (the \<^verbatim>\<open>try\<close> around \<^verbatim>\<open>JSON.parse\<close> and the test that follows it).\<close>

datatype classification = Conversational string | Proposal js js js

definition classify :: "string \<Rightarrow> js option \<Rightarrow> classification" where
  "classify response parsed =
     (let parsedResponse = (case parsed of None \<Rightarrow> JNull | Some v \<Rightarrow> v)
      in if truthy parsedResponse \<and> js_get parsedResponse ''type'' = JStr ''suggestion''
         then Proposal (js_get parsedResponse ''action'') (js_get parsedResponse ''content'')
                (js_get parsedResponse ''explanation'')
         else Conversational response)"

definition new_suggestion :: "nat \<Rightarrow> js \<Rightarrow> js \<Rightarrow> js \<Rightarrow> string \<Rightarrow> suggestion" where
  "new_suggestion now action c ex originalRequest =
     \<lparr>s_id = now, s_type = action, s_content = c, s_explanation = ex, s_applied = True,
      s_originalRequest = originalRequest, s_timestamp = now, s_range = None,
      s_position = None\<rparr>"

definition handleSendMessage_reply :: "nat \<Rightarrow> nat \<Rightarrow> string \<Rightarrow> reply \<Rightarrow> app \<Rightarrow> app" where
  "handleSendMessage_reply tS tM userText rep w =
     setClaudeTyping False
       (case rep of
          SendFailed \<Rightarrow> addChatMessage tM (assistant_message (JStr apology)) w
        | Response response parsed \<Rightarrow>
            (case classify response parsed of
               Proposal action c ex \<Rightarrow>
                 (let sg = new_suggestion tS action c ex userText
                  in case applySuggestion sg (editorRef w) of
                       Ok r \<Rightarrow>
                         addChatMessage tM (suggestion_message c ex sg)
                           (w\<lparr>editorRef := map_option ed_flush r\<rparr>)
                     | Throw r \<Rightarrow>
                         addChatMessage tM (assistant_message (JStr apology))
                           (w\<lparr>editorRef := map_option ed_flush r\<rparr>))
             | Conversational text \<Rightarrow> addChatMessage tM (assistant_message (JStr text)) w))"

section \<open>The accept and reject controls\<close>

text \<open>
  \<^verbatim>\<open>InlineSuggestionActions\<close>, shown under an assistant message that carries a
  suggestion. Its own state is \<open>status\<close>; it renders the two buttons only while the
  status is pending, so a click reaches a handler only then.
\<close>

datatype inline_status = pending | st_accepted | st_rejected

definition inline_handleAccept :: "nat \<Rightarrow> inline_status \<times> app \<Rightarrow> inline_status \<times> app" where
  "inline_handleAccept now sw = (case sw of (st, w) \<Rightarrow> (st_accepted, acceptSuggestion now w))"

definition inline_handleReject :: "nat \<Rightarrow> inline_status \<times> app \<Rightarrow> inline_status \<times> app" where
  "inline_handleReject now sw =
     (case sw of (st, w) \<Rightarrow>
        (st_rejected,
         rejectSuggestion now
           (w\<lparr>editorRef := map_option ed_flush (undoLastChange (editorRef w))\<rparr>)))"

definition inline_clickAccept :: "nat \<Rightarrow> inline_status \<times> app \<Rightarrow> inline_status \<times> app" where
  "inline_clickAccept now sw = (if fst sw = pending then inline_handleAccept now sw else sw)"

definition inline_clickReject :: "nat \<Rightarrow> inline_status \<times> app \<Rightarrow> inline_status \<times> app" where
  "inline_clickReject now sw = (if fst sw = pending then inline_handleReject now sw else sw)"

text \<open>
  \<^verbatim>\<open>SuggestionPanel\<close>, which renders nothing when there is no pending suggestion.
  When \<^verbatim>\<open>applySuggestion\<close> throws, the handler ends there.
\<close>

definition panel_handleAccept :: "nat \<Rightarrow> suggestion \<Rightarrow> app \<Rightarrow> app" where
  "panel_handleAccept now p w =
     (case applySuggestion p (editorRef w) of
        Ok r \<Rightarrow> acceptSuggestion now (w\<lparr>editorRef := map_option ed_flush r\<rparr>)
      | Throw r \<Rightarrow> w\<lparr>editorRef := map_option ed_flush r\<rparr>)"

definition panel_handleReject :: "nat \<Rightarrow> suggestion \<Rightarrow> app \<Rightarrow> app" where
  "panel_handleReject now p w =
     rejectSuggestion now
       (if s_applied p
        then w\<lparr>editorRef := map_option ed_flush (undoLastChange (editorRef w))\<rparr>
        else w)"

definition panel_clickAccept :: "nat \<Rightarrow> app \<Rightarrow> app" where
  "panel_clickAccept now w =
     (case pendingSuggestion w of None \<Rightarrow> w | Some p \<Rightarrow> panel_handleAccept now p w)"

definition panel_clickReject :: "nat \<Rightarrow> app \<Rightarrow> app" where
  "panel_clickReject now w =
     (case pendingSuggestion w of None \<Rightarrow> w | Some p \<Rightarrow> panel_handleReject now p w)"

section \<open>Sample states\<close>

text \<open>The editor as \<^verbatim>\<open>createEditor\<close> returns it, with the initial value that
  \<^verbatim>\<open>SOWEditor\<close> gives it and no selection yet, the store's initial state, and further
  states used to run the definitions on concrete inputs.\<close>

definition editor0 :: editor where
  "editor0 = \<lparr>doc = ''Start writing your Statement of Work...'', selection = None,
               undos = [], redos = [], operations = 0\<rparr>"

definition app0 :: app where
  "app0 = \<lparr>chatMessages = [], isClaudeTyping = False, pendingSuggestion = None,
            suggestionHistory = [], editorRef = Some editor0, editorValue = [],
            inputValue = []\<rparr>"

definition app_blank :: app where
  "app_blank = app0\<lparr>inputValue := [CHR 0x20, CHR 0x09, CHR 0xA0]\<rparr>"

definition app_busy :: app where
  "app_busy = app0\<lparr>inputValue := ''hi'', isClaudeTyping := True\<rparr>"

definition app_hi :: app where
  "app_hi = app0\<lparr>inputValue := ''  hi ''\<rparr>"

definition reply_no_action :: string where
  \<open>reply_no_action = ''{"type":"suggestion","content":"X"}''\<close>

definition parsed_no_action :: js where
  "parsed_no_action = JObj [(''type'', JStr ''suggestion''), (''content'', JStr ''X'')]"



definition reply_insert_hello :: string where
  \<open>reply_insert_hello =
     ''{"type":"suggestion","action":"insert","content":"Hello","explanation":"greeting"}''\<close>

definition parsed_insert_hello :: js where
  "parsed_insert_hello =
     JObj [(''type'', JStr ''suggestion''), (''action'', JStr ''insert''),
           (''content'', JStr ''Hello''), (''explanation'', JStr ''greeting'')]"

definition reply_plain :: string where
  "reply_plain = ''Sure, here's some advice...''"

definition sg_hello :: suggestion where
  "sg_hello = new_suggestion 41 (JStr ''insert'') (JStr ''Hello'') (JStr ''greeting'') ''go''"

text \<open>An editor with the caret behind its text and no history, one with a backward
  selection of \<open>old text\<close>, and an empty one without a selection.\<close>

definition editor_caret :: editor where
  "editor_caret = \<lparr>doc = ''Scope: '', selection = Some (7, 7), undos = [], redos = [],
                     operations = 0\<rparr>"

definition app_caret :: app where
  "app_caret = app0\<lparr>editorRef := Some editor_caret, isClaudeTyping := True\<rparr>"

definition editor_selected :: editor where
  "editor_selected = \<lparr>doc = ''Keep the old text here'', selection = Some (17, 9),
                        undos = [], redos = [], operations = 0\<rparr>"

definition editor_empty :: editor where
  "editor_empty = \<lparr>doc = [], selection = None, undos = [], redos = [], operations = 0\<rparr>"

text \<open>The state after the reply handler has applied \<open>sg_hello\<close> to \<open>app_caret\<close>, and
  the state after the user has then undone that with the editor's own undo.\<close>

definition editor_applied :: editor where
  "editor_applied = \<lparr>doc = ''Scope: Hello'', selection = Some (12, 12),
     undos = [\<lparr>b_operations = [insert_text 7 ''Hello'' 5], b_selectionBefore = Some (7, 7)\<rparr>],
     redos = [], operations = 0\<rparr>"

definition app_applied :: app where
  "app_applied = app0\<lparr>editorRef := Some editor_applied,
     chatMessages :=
       [\<lparr>m_id = 42, m_role = assistant, m_content = JStr ''Hello'',
         m_explanation = JStr ''greeting'', m_suggestion = Some sg_hello,
         m_hasSuggestion = True, m_timestamp = 42\<rparr>]\<rparr>"

definition editor_undone :: editor where
  "editor_undone = \<lparr>doc = ''Scope: '', selection = Some (7, 7), undos = [],
     redos = [\<lparr>b_operations = [insert_text 7 ''Hello'' 5], b_selectionBefore = Some (7, 7)\<rparr>],
     operations = 0\<rparr>"

definition app_undone :: app where
  "app_undone = app_applied\<lparr>editorRef := Some editor_undone\<rparr>"

text \<open>The user's typing, one character per event, into an empty document with the
  caret at its start, the state in which \<open>Scope: \<close> has been typed, and the
  editor after \<open>sg_hello\<close> has been applied to that.\<close>

definition editor_blank :: editor where
  "editor_blank = \<lparr>doc = [], selection = Some (0, 0), undos = [], redos = [],
                     operations = 0\<rparr>"

definition type_char :: "char \<Rightarrow> editor \<Rightarrow> editor" where
  "type_char c e = ed_flush (res_state (ed_insertText (JStr [c]) e))"

definition editor_typed :: editor where
  "editor_typed = fold type_char ''Scope: '' editor_blank"

definition editor_typed_hello :: editor where
  "editor_typed_hello =
     \<lparr>doc = ''Scope: Hello'', selection = Some (12, 12),
      undos = [\<lparr>b_operations =
                  [insert_text 0 ''S'' 1, insert_text 1 ''c'' 1, insert_text 2 ''o'' 1,
                   insert_text 3 ''p'' 1, insert_text 4 ''e'' 1, insert_text 5 '':'' 1,
                   insert_text 6 '' '' 1, insert_text 7 ''Hello'' 5],
                b_selectionBefore = Some (0, 0)\<rparr>],
      redos = [], operations = 0\<rparr>"

definition app_typed :: app where
  "app_typed = app0\<lparr>editorRef := Some editor_typed, isClaudeTyping := True\<rparr>"


section \<open>Sending a message\<close>

lemma trim_empty_iff: "trim s = [] \<longleftrightarrow> (\<forall>c\<in>set s. is_ws c)"
proof -
  have "trim s = [] \<longleftrightarrow> (\<forall>c\<in>set (dropWhile is_ws s). is_ws c)"
    by (simp add: trim_def)
  also have "\<dots> \<longleftrightarrow> dropWhile is_ws s = []"
  proof
    assume a: "\<forall>c\<in>set (dropWhile is_ws s). is_ws c"
    show "dropWhile is_ws s = []"
    proof (rule ccontr)
      assume n: "dropWhile is_ws s \<noteq> []"
      then have "\<not> is_ws (hd (dropWhile is_ws s))" by (rule hd_dropWhile)
      moreover from n have "hd (dropWhile is_ws s) \<in> set (dropWhile is_ws s)" by simp
      ultimately show False using a by blast
    qed
  next
    assume e: "dropWhile is_ws s = []"
    show "\<forall>c\<in>set (dropWhile is_ws s). is_ws c" unfolding e by simp
  qed
  also have "\<dots> \<longleftrightarrow> (\<forall>c\<in>set s. is_ws c)"
    by simp
  finally show ?thesis .
qed

text \<open>
  C10. While the assistant is composing, or when the input box holds nothing but white
  space (the empty input included), \<open>handleSendMessage\<close> changes nothing and dispatches
  no request: no message is added, and the editor, the pending suggestion and the
  suggestion history stay as they are, since the whole state is returned unchanged.
  Whenever it does dispatch a request it sets the composing flag, so until the reply
  handler clears it every further call is such a no-op: at most one request is in flight.
\<close>

theorem C10_guarded_submit_is_noop:
  "((isClaudeTyping w \<or> (\<forall>c\<in>set (inputValue w). is_ws c)) \<longrightarrow>
      handleSendMessage now w = (w, None)) \<and>
   (\<forall>w' q. handleSendMessage now w = (w', Some q) \<longrightarrow>
      isClaudeTyping w' \<and> (\<forall>now'. handleSendMessage now' w' = (w', None)))"
proof (intro conjI impI allI)
  assume "isClaudeTyping w \<or> (\<forall>c\<in>set (inputValue w). is_ws c)"
  then show "handleSendMessage now w = (w, None)"
    by (auto simp: handleSendMessage_def trim_empty_iff)
next
  fix w' q
  assume h: "handleSendMessage now w = (w', Some q)"
  then show "isClaudeTyping w'"
    by (auto simp: handleSendMessage_def Let_def setClaudeTyping_def split: if_splits)
  then show "handleSendMessage now' w' = (w', None)" for now'
    by (simp add: handleSendMessage_def)
qed

lemma trim_hi: "trim ''  hi '' = ''hi''"
  by (simp add: trim_def is_ws_def)

lemma send_hi:
  "handleSendMessage 7 app_hi =
     (fst (handleSendMessage 7 app_hi),
      Some \<lparr>q_userMessage = ''hi'', q_currentContent = [], q_selectedText = [],
            q_hasSelection = False\<rparr>)"
  by (simp add: handleSendMessage_def trim_hi app_hi_def app0_def editor0_def Let_def
      addChatMessage_def setClaudeTyping_def getSelectedText_def user_message_def)

theorem C10_guarded_submit_is_noop_witness:
  "handleSendMessage 7 app_blank = (app_blank, None) \<and>
   handleSendMessage 7 app_busy = (app_busy, None) \<and>
   isClaudeTyping (fst (handleSendMessage 7 app_hi)) \<and>
   handleSendMessage 8 (fst (handleSendMessage 7 app_hi)) = (fst (handleSendMessage 7 app_hi), None)"
proof -
  have a: "isClaudeTyping app_blank \<or> (\<forall>c\<in>set (inputValue app_blank). is_ws c)"
    by (simp add: app_blank_def app0_def is_ws_def)
  have b: "isClaudeTyping app_busy \<or> (\<forall>c\<in>set (inputValue app_busy). is_ws c)"
    by (simp add: app_busy_def app0_def)
  note c = C10_guarded_submit_is_noop [of app_hi 7, THEN conjunct2, rule_format, OF send_hi]
  show ?thesis
    using C10_guarded_submit_is_noop [of app_blank 7, THEN conjunct1, rule_format, OF a]
      C10_guarded_submit_is_noop [of app_busy 7, THEN conjunct1, rule_format, OF b] c
    by blast
qed

section \<open>Classifying the reply\<close>

lemma js_get_JStr:
  "js_get v k = JStr s \<longleftrightarrow> (\<exists>kvs. v = JObj kvs \<and> map_of kvs k = Some (JStr s))"
  by (cases v) (auto split: option.splits)

lemma classify_Proposal_iff:
  "classify response parsed = Proposal a c ex \<longleftrightarrow>
     (\<exists>kvs. parsed = Some (JObj kvs) \<and> map_of kvs ''type'' = Some (JStr ''suggestion'') \<and>
        a = js_get (JObj kvs) ''action'' \<and> c = js_get (JObj kvs) ''content'' \<and>
        ex = js_get (JObj kvs) ''explanation'')"
proof (cases parsed)
  case None
  then show ?thesis by (simp add: classify_def)
next
  case (Some v)
  show ?thesis
  proof (cases "js_get v ''type'' = JStr ''suggestion''")
    case True
    then obtain kvs where v: "v = JObj kvs" and t: "map_of kvs ''type'' = Some (JStr ''suggestion'')"
      unfolding js_get_JStr by blast
    with Some show ?thesis by (auto simp: classify_def)
  next
    case False
    then have "\<not> (\<exists>kvs. v = JObj kvs \<and> map_of kvs ''type'' = Some (JStr ''suggestion''))"
      unfolding js_get_JStr by blast
    with Some False show ?thesis by (auto simp: classify_def)
  qed
qed

text \<open>
  C5, as amended. The reply is classified as a Proposal exactly when it parses to a JSON
  object whose \<open>type\<close> is the string \<open>suggestion\<close>. Neither \<open>action\<close> nor
  \<open>content\<close> is required: the Proposal carries each as it was read, \<open>undefined\<close>
  when missing. Every other reply is Conversational and carries the raw text.
\<close>

theorem C5_proposal_iff_type_is_suggestion:
  "((\<exists>a c ex. classify response parsed = Proposal a c ex) \<longleftrightarrow>
      (\<exists>kvs. parsed = Some (JObj kvs) \<and> map_of kvs ''type'' = Some (JStr ''suggestion''))) \<and>
   (\<forall>kvs. parsed = Some (JObj kvs) \<and> map_of kvs ''type'' = Some (JStr ''suggestion'') \<longrightarrow>
      classify response parsed =
        Proposal (case map_of kvs ''action'' of None \<Rightarrow> JUndefined | Some v \<Rightarrow> v)
          (case map_of kvs ''content'' of None \<Rightarrow> JUndefined | Some v \<Rightarrow> v)
          (case map_of kvs ''explanation'' of None \<Rightarrow> JUndefined | Some v \<Rightarrow> v)) \<and>
   ((\<forall>a c ex. classify response parsed \<noteq> Proposal a c ex) \<longrightarrow>
      classify response parsed = Conversational response)"
proof (intro conjI)
  show "(\<exists>a c ex. classify response parsed = Proposal a c ex) \<longleftrightarrow>
      (\<exists>kvs. parsed = Some (JObj kvs) \<and> map_of kvs ''type'' = Some (JStr ''suggestion''))"
    unfolding classify_Proposal_iff by blast
  show "\<forall>kvs. parsed = Some (JObj kvs) \<and> map_of kvs ''type'' = Some (JStr ''suggestion'') \<longrightarrow>
      classify response parsed =
        Proposal (case map_of kvs ''action'' of None \<Rightarrow> JUndefined | Some v \<Rightarrow> v)
          (case map_of kvs ''content'' of None \<Rightarrow> JUndefined | Some v \<Rightarrow> v)
          (case map_of kvs ''explanation'' of None \<Rightarrow> JUndefined | Some v \<Rightarrow> v)"
    unfolding classify_Proposal_iff by simp
  show "(\<forall>a c ex. classify response parsed \<noteq> Proposal a c ex) \<longrightarrow>
      classify response parsed = Conversational response"
    by (simp add: classify_def Let_def)
qed

lemma classify_no_action:
  "classify reply_no_action (Some parsed_no_action) = Proposal JUndefined (JStr ''X'') JUndefined"
  by (simp add: classify_def parsed_no_action_def)

theorem C5_proposal_iff_type_is_suggestion_witness:
  "classify reply_no_action (Some parsed_no_action) = Proposal JUndefined (JStr ''X'') JUndefined \<and>
   classify reply_insert_hello (Some parsed_insert_hello) =
     Proposal (JStr ''insert'') (JStr ''Hello'') (JStr ''greeting'') \<and>
   classify reply_plain None = Conversational reply_plain"
proof -
  have n: "\<forall>a c ex. classify reply_plain None \<noteq> Proposal a c ex"
    by (simp add: classify_def)
  from C5_proposal_iff_type_is_suggestion [of reply_no_action "Some parsed_no_action",
      THEN conjunct2, THEN conjunct1, rule_format,
      of "[(''type'', JStr ''suggestion''), (''content'', JStr ''X'')]"]
  have "classify reply_no_action (Some parsed_no_action) = Proposal JUndefined (JStr ''X'') JUndefined"
    by (simp add: parsed_no_action_def)
  moreover
  from C5_proposal_iff_type_is_suggestion [of reply_insert_hello "Some parsed_insert_hello",
      THEN conjunct2, THEN conjunct1, rule_format,
      of "[(''type'', JStr ''suggestion''), (''action'', JStr ''insert''),
           (''content'', JStr ''Hello''), (''explanation'', JStr ''greeting'')]"]
  have "classify reply_insert_hello (Some parsed_insert_hello) =
     Proposal (JStr ''insert'') (JStr ''Hello'') (JStr ''greeting'')"
    by (simp add: parsed_insert_hello_def)
  moreover
  from C5_proposal_iff_type_is_suggestion [of reply_plain None,
      THEN conjunct2, THEN conjunct2, THEN mp, OF n]
  have "classify reply_plain None = Conversational reply_plain" .
  ultimately show ?thesis by blast
qed

text \<open>
  C6. A reply that \<^verbatim>\<open>JSON.parse\<close> rejects is classified as Conversational with the
  raw text. The reply handler then ends normally: it appends one assistant message whose
  content is that text and which carries no suggestion, clears the composing flag, and
  leaves the editor, the pending suggestion and the suggestion history untouched.
\<close>

theorem C6_parse_failure_is_conversational:
  "classify response None = Conversational response \<and>
   handleSendMessage_reply tS tM userText (Response response None) w =
     w\<lparr>chatMessages := chatMessages w @
          [\<lparr>m_id = tM, m_role = assistant, m_content = JStr response,
            m_explanation = JUndefined, m_suggestion = None, m_hasSuggestion = False,
            m_timestamp = tM\<rparr>],
       isClaudeTyping := False\<rparr> \<and>
   editorRef (handleSendMessage_reply tS tM userText (Response response None) w) = editorRef w \<and>
   pendingSuggestion (handleSendMessage_reply tS tM userText (Response response None) w) =
     pendingSuggestion w \<and>
   suggestionHistory (handleSendMessage_reply tS tM userText (Response response None) w) =
     suggestionHistory w"
  by (simp add: classify_def handleSendMessage_reply_def addChatMessage_def
      setClaudeTyping_def assistant_message_def)

section \<open>Inserting text\<close>

lemma doc_ed_apply [simp]: "doc (ed_apply op e) = transform_doc op (doc e)"
  by (simp add: ed_apply_def transform_def)

lemma selection_ed_apply [simp]:
  "selection (ed_apply op e) =
     map_option (\<lambda>(a, f). (move_point op a, move_point op f)) (selection e)"
  by (simp add: ed_apply_def transform_def)

lemma doc_setSelection [simp]: "doc (setSelection r e) = doc e"
  by (simp add: setSelection_def set_selection_def split: option.splits)

lemma selection_setSelection:
  "selection e \<noteq> None \<Longrightarrow> selection (setSelection r e) = Some r"
  by (auto simp: setSelection_def set_selection_def split: option.splits)

lemma doc_ed_select [simp]: "doc (ed_select r e) = doc e"
  by (simp add: ed_select_def set_selection_def)

lemma selection_ed_select [simp]: "selection (ed_select r e) = Some r"
  by (simp add: ed_select_def set_selection_def)

lemma delete_selected_split:
  assumes "doc e = pre @ sel @ post" and "selection e = Some (a, f)"
    and "min a f = length pre" and "max a f = length pre + length sel"
  shows "doc (delete_selected e) = pre @ post"
    and "selection (delete_selected e) = Some (length pre, length pre)"
proof -
  show "doc (delete_selected e) = pre @ post"
  proof (cases "a = f")
    case True
    with assms(3,4) have "sel = []" by simp
    with True assms(1,2) show ?thesis by (simp add: delete_selected_def)
  next
    case False
    with assms show ?thesis by (simp add: delete_selected_def Let_def)
  qed
  show "selection (delete_selected e) = Some (length pre, length pre)"
  proof (cases "a = f")
    case True
    with assms(2,3) show ?thesis by (simp add: delete_selected_def)
  next
    case False
    with assms(2) show ?thesis
      by (simp add: delete_selected_def Let_def selection_setSelection assms(3))
  qed
qed

lemma insert_string_split:
  assumes "doc e = pre @ sel @ post" and "selection e = Some (a, f)"
    and "min a f = length pre" and "max a f = length pre + length sel"
  shows "\<exists>e'. ed_insertText (JStr text) e = Ok e' \<and> doc e' = pre @ text @ post \<and>
           selection e' = Some (length pre + length text, length pre + length text)"
proof (cases "text = []")
  case True
  with assms(2) have "ed_insertText (JStr text) e = Ok (delete_selected e)"
    by (simp add: ed_insertText_def)
  with True delete_selected_split [OF assms] show ?thesis by simp
next
  case False
  with assms(2,3) have "ed_insertText (JStr text) e =
      Ok (ed_apply (insert_text (length pre) text (length text)) (delete_selected e))"
    by (simp add: ed_insertText_def)
  with False delete_selected_split [OF assms] show ?thesis by simp
qed

lemma insert_without_selection:
  "selection e = None \<Longrightarrow> ed_insertText text e = Ok e"
  by (simp add: ed_insertText_def)

section \<open>Replace and append\<close>

lemma apply_replace_no_range:
  "applySuggestion (new_suggestion tS (JStr ''replace'') c ex userText) (Some e) =
     (case ed_insertText c e of Ok e' \<Rightarrow> Ok (Some e') | Throw e' \<Rightarrow> Throw (Some e'))"
  by (simp add: applySuggestion_def new_suggestion_def replaceSelection_def)

lemma apply_append:
  "applySuggestion (new_suggestion tS (JStr ''append'') v ex userText) ref = Ok (insertAtEnd v ref)"
  by (cases ref) (simp_all add: applySuggestion_def new_suggestion_def insertAtEnd_def)

text \<open>
  C7, as amended. A Proposal of kind Replace with string content, as the chat panel builds
  it, is applied by one \<open>insertText\<close> on the current selection. With the document split
  as \<open>pre @ sel @ post\<close> around the selected range (in either direction), the result is
  \<open>pre @ text @ post\<close>: a non-empty \<open>sel\<close> is overwritten by the content, once, and
  with an empty \<open>sel\<close> (a caret) the content is inserted at the caret; the caret ends
  behind the new text. When the editor has no selection at all, nothing is inserted and
  the editor stays as it is.
\<close>

theorem C7_replace_needs_a_selection:
  "(selection e = None \<longrightarrow>
      applySuggestion (new_suggestion tS (JStr ''replace'') (JStr text) ex userText) (Some e) =
        Ok (Some e)) \<and>
   (\<forall>pre sel post a f.
      doc e = pre @ sel @ post \<and> selection e = Some (a, f) \<and>
      min a f = length pre \<and> max a f = length pre + length sel \<longrightarrow>
      (\<exists>e'. applySuggestion (new_suggestion tS (JStr ''replace'') (JStr text) ex userText) (Some e) =
               Ok (Some e') \<and>
             getSelectedText (Some e) = sel \<and>
             doc e' = pre @ text @ post \<and>
             selection e' = Some (length pre + length text, length pre + length text)))"
proof (intro conjI impI allI)
  assume "selection e = None"
  then show "applySuggestion (new_suggestion tS (JStr ''replace'') (JStr text) ex userText) (Some e) =
        Ok (Some e)"
    by (simp add: apply_replace_no_range insert_without_selection)
next
  fix pre sel post a f
  assume h: "doc e = pre @ sel @ post \<and> selection e = Some (a, f) \<and>
      min a f = length pre \<and> max a f = length pre + length sel"
  then have "getSelectedText (Some e) = sel"
    by (simp add: getSelectedText_def ed_string_def)
  moreover from h obtain e' where "ed_insertText (JStr text) e = Ok e'"
    and "doc e' = pre @ text @ post"
    and "selection e' = Some (length pre + length text, length pre + length text)"
    using insert_string_split [of e pre sel post a f "text"] by blast
  ultimately show "\<exists>e'. applySuggestion (new_suggestion tS (JStr ''replace'') (JStr text) ex userText) (Some e) =
               Ok (Some e') \<and>
             getSelectedText (Some e) = sel \<and>
             doc e' = pre @ text @ post \<and>
             selection e' = Some (length pre + length text, length pre + length text)"
    by (simp add: apply_replace_no_range)
qed

theorem C7_replace_needs_a_selection_witness:
  "(\<exists>e'. applySuggestion (new_suggestion 41 (JStr ''replace'') (JStr ''new text'') JUndefined ''go'')
            (Some editor_selected) = Ok (Some e') \<and>
         getSelectedText (Some editor_selected) = ''old text'' \<and>
         doc e' = ''Keep the new text here'') \<and>
   (\<exists>e'. applySuggestion (new_suggestion 41 (JStr ''replace'') (JStr ''new text'') JUndefined ''go'')
            (Some editor_caret) = Ok (Some e') \<and>
         getSelectedText (Some editor_caret) = [] \<and>
         doc e' = ''Scope: new text'') \<and>
   selection editor_empty = None \<and>
   applySuggestion (new_suggestion 41 (JStr ''replace'') (JStr ''new text'') JUndefined ''go'')
     (Some editor_empty) = Ok (Some editor_empty)"
proof -
  have a: "doc editor_selected = ''Keep the '' @ ''old text'' @ '' here'' \<and>
    selection editor_selected = Some (17, 9) \<and> min 17 9 = length ''Keep the '' \<and>
    max 17 9 = length ''Keep the '' + length ''old text''"
    by (simp add: editor_selected_def)
  have b: "doc editor_caret = ''Scope: '' @ [] @ [] \<and>
    selection editor_caret = Some (7, 7) \<and> min 7 7 = length ''Scope: '' \<and>
    max 7 7 = length ''Scope: '' + length ([] :: string)"
    by (simp add: editor_caret_def)
  have n: "selection editor_empty = None"
    by (simp add: editor_empty_def)
  from C7_replace_needs_a_selection [of editor_selected 41 "''new text''" JUndefined "''go''",
      THEN conjunct2, rule_format, OF a]
  have "\<exists>e'. applySuggestion (new_suggestion 41 (JStr ''replace'') (JStr ''new text'') JUndefined ''go'')
            (Some editor_selected) = Ok (Some e') \<and>
         getSelectedText (Some editor_selected) = ''old text'' \<and>
         doc e' = ''Keep the new text here''"
    by auto
  moreover
  from C7_replace_needs_a_selection [of editor_caret 41 "''new text''" JUndefined "''go''",
      THEN conjunct2, rule_format, OF b]
  have "\<exists>e'. applySuggestion (new_suggestion 41 (JStr ''replace'') (JStr ''new text'') JUndefined ''go'')
            (Some editor_caret) = Ok (Some e') \<and>
         getSelectedText (Some editor_caret) = [] \<and>
         doc e' = ''Scope: new text''"
    by auto
  moreover
  from C7_replace_needs_a_selection [of editor_empty 41 "''new text''" JUndefined "''go''",
      THEN conjunct1, rule_format, OF n]
  have "applySuggestion (new_suggestion 41 (JStr ''replace'') (JStr ''new text'') JUndefined ''go'')
     (Some editor_empty) = Ok (Some editor_empty)" .
  ultimately show ?thesis using n by blast
qed

text \<open>
  C7 as stated fails: on the editor as it is created, which has no selection, neither
  range nor caret, applying a Replace inserts its content nowhere; the document is the
  same afterwards. And content that is not a string, here the number 5, is not
  inserted at a caret either.
\<close>

theorem C7_no_selection_counterexample:
  "selection editor0 = None \<and>
   getSelectedText (Some editor0) = [] \<and>
   applySuggestion (new_suggestion 41 (JStr ''replace'') (JStr ''new text'') JUndefined ''go'')
     (Some editor0) = Ok (Some editor0) \<and>
   doc editor0 = ''Start writing your Statement of Work...'' \<and>
   selection editor_caret = Some (7, 7) \<and>
   applySuggestion (new_suggestion 41 (JStr ''replace'') (JNum 5) JUndefined ''go'')
     (Some editor_caret) = Ok (Some editor_caret)"
proof -
  have "applySuggestion (new_suggestion 41 (JStr ''replace'') (JNum 5) JUndefined ''go'')
     (Some editor_caret) = Ok (Some editor_caret)"
    by (simp add: apply_replace_no_range ed_insertText_def delete_selected_def
        editor_caret_def)
  moreover have "selection editor_caret = Some (7, 7)"
    by (simp add: editor_caret_def)
  ultimately show ?thesis
    by (simp add: apply_replace_no_range insert_without_selection getSelectedText_def
        editor0_def)
qed

text \<open>
  C8, as amended. A Proposal of kind Append moves the selection to the end of the
  document and inserts a line feed followed by the content there; into an editor without
  history this is one batch of one insert. A selection that existed before (a range or a
  caret) is restored. When there was none, the editor is left with a caret at the end of
  the appended block: the selection is no longer absent, but no text is selected.
\<close>

theorem C8_append_at_end:
  "\<exists>e'. applySuggestion (new_suggestion tS (JStr ''append'') v ex userText) (Some e) = Ok (Some e') \<and>
      doc e' = doc e @ [CHR 0x0A] @ ToString v \<and>
      (undos e = [] \<longrightarrow>
         undos e' =
           [\<lparr>b_operations = [insert_text (length (doc e)) (CHR 0x0A # ToString v)
                                (Suc (length (ToString v)))],
             b_selectionBefore = Some (length (doc e), length (doc e))\<rparr>]) \<and>
      (\<forall>r. selection e = Some r \<longrightarrow> selection e' = Some r) \<and>
      (selection e = None \<longrightarrow>
         selection e' = Some (length (doc e'), length (doc e')) \<and> getSelectedText (Some e') = [])"
proof -
  let ?t = "CHR 0x0A # ToString v"
  let ?e1 = "ed_select (ed_end e) e"
  let ?e2 = "ed_apply (insert_text (length (doc e)) ?t (length ?t)) ?e1"
  have d: "delete_selected ?e1 = ?e1"
    by (simp add: delete_selected_def ed_end_def)
  have i: "ed_insertText (JStr ?t) ?e1 = Ok ?e2"
    by (simp add: ed_insertText_def d) (simp add: ed_end_def)
  have a: "insertAtEnd v (Some e) =
      Some (case selection e of None \<Rightarrow> ?e2 | Some r \<Rightarrow> ed_select r ?e2)"
    by (cases "selection e") (simp_all add: insertAtEnd_def Let_def i)
  have doc2: "doc ?e2 = doc e @ [CHR 0x0A] @ ToString v"
    by simp
  have sel2: "selection ?e2 = Some (length (doc ?e2), length (doc ?e2))"
    by (simp add: ed_end_def)
  have u: "undos ?e2 =
      [\<lparr>b_operations = [insert_text (length (doc e)) ?t (Suc (length (ToString v)))],
        b_selectionBefore = Some (length (doc e), length (doc e))\<rparr>]" if "undos e = []"
    using that by (simp add: ed_apply_def transform_def ed_select_def set_selection_def ed_end_def)
  show ?thesis
  proof (cases "selection e")
    case None
    with a doc2 sel2 u show ?thesis
      by (simp add: apply_append getSelectedText_def ed_string_def)
  next
    case (Some r)
    with a doc2 u show ?thesis
      by (simp add: apply_append ed_select_def set_selection_def)
  qed
qed

section \<open>Runs on the sample states\<close>

lemma apply_new_suggestion:
  "applySuggestion (new_suggestion tS action c ex userText) (Some e) =
     (if action = JStr ''append'' then Ok (insertAtEnd c (Some e))
      else case ed_insertText c e of Ok e' \<Rightarrow> Ok (Some e') | Throw e' \<Rightarrow> Throw (Some e'))"
  by (simp add: applySuggestion_def new_suggestion_def replaceSelection_def insertText_def
      insertAtEnd_def)

lemma insert_at_caret_no_history:
  assumes "selection e = Some (p, p)" and "undos e = []" and "t \<noteq> []"
  shows "ed_insertText (JStr t) e =
     Ok (e\<lparr>doc := take p (doc e) @ t @ drop p (doc e),
           selection := Some (p + length t, p + length t),
           undos := [\<lparr>b_operations = [insert_text p t (length t)],
                     b_selectionBefore = Some (p, p)\<rparr>],
           redos := [], operations := Suc (operations e)\<rparr>)"
  using assms
  by (simp add: ed_insertText_def delete_selected_def ed_apply_def transform_def)



lemma native_undo: "ed_flush (ed_undo editor_applied) = editor_undone"
  by (simp add: ed_undo_def ed_flush_def transform_def setSelection_def editor_applied_def
      editor_undone_def)

lemma typed_state:
  "editor_typed =
     \<lparr>doc = ''Scope: '', selection = Some (7, 7),
      undos = [\<lparr>b_operations =
                  [insert_text 0 ''S'' 1, insert_text 1 ''c'' 1, insert_text 2 ''o'' 1,
                   insert_text 3 ''p'' 1, insert_text 4 ''e'' 1, insert_text 5 '':'' 1,
                   insert_text 6 '' '' 1],
                b_selectionBefore = Some (0, 0)\<rparr>],
      redos = [], operations = 0\<rparr>"
  by (simp add: editor_typed_def editor_blank_def type_char_def ed_insertText_def
      delete_selected_def ed_apply_def transform_def continues_def ed_flush_def)

lemma classify_insert_hello:
  "classify reply_insert_hello (Some parsed_insert_hello) =
     Proposal (JStr ''insert'') (JStr ''Hello'') (JStr ''greeting'')"
  by (simp add: classify_def parsed_insert_hello_def)


lemma reply_Proposal:
  assumes "classify response parsed = Proposal action c ex"
  shows "handleSendMessage_reply tS tM userText (Response response parsed) w =
     (case applySuggestion (new_suggestion tS action c ex userText) (editorRef w) of
        Ok r \<Rightarrow>
          w\<lparr>editorRef := map_option ed_flush r,
            chatMessages := chatMessages w @
              [\<lparr>m_id = tM, m_role = assistant, m_content = c, m_explanation = ex,
                m_suggestion = Some (new_suggestion tS action c ex userText),
                m_hasSuggestion = True, m_timestamp = tM\<rparr>],
            isClaudeTyping := False\<rparr>
      | Throw r \<Rightarrow>
          w\<lparr>editorRef := map_option ed_flush r,
            chatMessages := chatMessages w @
              [\<lparr>m_id = tM, m_role = assistant, m_content = JStr apology,
                m_explanation = JUndefined, m_suggestion = None, m_hasSuggestion = False,
                m_timestamp = tM\<rparr>],
            isClaudeTyping := False\<rparr>)"
  by (simp add: handleSendMessage_reply_def assms addChatMessage_def setClaudeTyping_def
      suggestion_message_def assistant_message_def Let_def split: res.splits)


section \<open>The reply handler on a Proposal\<close>










lemma reply_no_action_applied:
  "map_option doc (editorRef (handleSendMessage_reply 41 42 ''go''
      (Response reply_no_action (Some parsed_no_action)) app_caret)) = Some ''Scope: X''"
proof -
  have e: "editorRef app_caret = Some editor_caret"
    by (simp add: app_caret_def)
  have "ed_insertText (JStr ''X'') editor_caret =
      Ok (editor_caret\<lparr>doc := take 7 (doc editor_caret) @ ''X'' @ drop 7 (doc editor_caret),
           selection := Some (7 + length ''X'', 7 + length ''X''),
           undos := [\<lparr>b_operations = [insert_text 7 ''X'' (length ''X'')],
                     b_selectionBefore = Some (7, 7)\<rparr>],
           redos := [], operations := Suc (operations editor_caret)\<rparr>)"
    by (rule insert_at_caret_no_history) (simp_all add: editor_caret_def)
  then have "applySuggestion (new_suggestion 41 JUndefined (JStr ''X'') JUndefined ''go'')
      (editorRef app_caret) =
      Ok (Some (editor_caret\<lparr>doc := take 7 (doc editor_caret) @ ''X'' @ drop 7 (doc editor_caret),
           selection := Some (7 + length ''X'', 7 + length ''X''),
           undos := [\<lparr>b_operations = [insert_text 7 ''X'' (length ''X'')],
                     b_selectionBefore = Some (7, 7)\<rparr>],
           redos := [], operations := Suc (operations editor_caret)\<rparr>))"
    unfolding e by (simp add: apply_new_suggestion)
  then show ?thesis
    by (simp add: reply_Proposal [OF classify_no_action] ed_flush_def)
       (simp add: editor_caret_def)
qed

text \<open>
  C5 as stated fails: a payload with \<open>type\<close> and \<open>content\<close> but no \<open>action\<close>
  is classified as a Proposal, and the reply handler inserts its content at the caret.
\<close>

theorem C5_missing_action_counterexample:
  "classify reply_no_action (Some parsed_no_action) = Proposal JUndefined (JStr ''X'') JUndefined \<and>
   map_option doc (editorRef app_caret) = Some ''Scope: '' \<and>
   map_option doc (editorRef (handleSendMessage_reply 41 42 ''go''
      (Response reply_no_action (Some parsed_no_action)) app_caret)) = Some ''Scope: X''"
  by (simp add: classify_no_action reply_no_action_applied)
     (simp add: app_caret_def editor_caret_def)

lemma append_to_empty:
  "applySuggestion (new_suggestion 41 (JStr ''append'') (JStr ''# New Section'') JUndefined ''go'')
     (Some editor_empty) =
   Ok (Some \<lparr>doc = CHR 0x0A # ''# New Section'', selection = Some (14, 14),
             undos = [\<lparr>b_operations = [insert_text 0 (CHR 0x0A # ''# New Section'') 14],
                       b_selectionBefore = Some (0, 0)\<rparr>],
             redos = [], operations = 2\<rparr>)"
  by (simp add: apply_append insertAtEnd_def Let_def ed_insertText_def delete_selected_def
      ed_apply_def transform_def ed_select_def set_selection_def ed_end_def editor_empty_def)

theorem C8_append_at_end_witness:
  "(\<exists>e'. applySuggestion (new_suggestion 41 (JStr ''append'') (JStr ''# New Section'') JUndefined ''go'')
       (Some editor_selected) = Ok (Some e') \<and>
      doc e' = ''Keep the old text here'' @ [CHR 0x0A] @ ''# New Section'' \<and>
      selection editor_selected = Some (17, 9) \<and> selection e' = Some (17, 9)) \<and>
   (\<exists>e'. applySuggestion (new_suggestion 41 (JStr ''append'') (JStr ''# New Section'') JUndefined ''go'')
       (Some editor_empty) = Ok (Some e') \<and>
      doc e' = [CHR 0x0A] @ ''# New Section'' \<and>
      selection editor_empty = None \<and> selection e' = Some (14, 14) \<and>
      getSelectedText (Some e') = [] \<and> undos editor_empty = [] \<and> length (undos e') = 1)"
proof -
  have s: "selection editor_selected = Some (17, 9)" "doc editor_selected = ''Keep the old text here''"
    by (simp_all add: editor_selected_def)
  have n: "selection editor_empty = None" "doc editor_empty = []" "undos editor_empty = []"
    by (simp_all add: editor_empty_def)
  from C8_append_at_end [of 41 "JStr ''# New Section''" JUndefined "''go''" editor_selected] s
  have "\<exists>e'. applySuggestion (new_suggestion 41 (JStr ''append'') (JStr ''# New Section'') JUndefined ''go'')
       (Some editor_selected) = Ok (Some e') \<and>
      doc e' = ''Keep the old text here'' @ [CHR 0x0A] @ ''# New Section'' \<and>
      selection editor_selected = Some (17, 9) \<and> selection e' = Some (17, 9)"
    by auto
  moreover
  from C8_append_at_end [of 41 "JStr ''# New Section''" JUndefined "''go''" editor_empty] n
  have "\<exists>e'. applySuggestion (new_suggestion 41 (JStr ''append'') (JStr ''# New Section'') JUndefined ''go'')
       (Some editor_empty) = Ok (Some e') \<and>
      doc e' = [CHR 0x0A] @ ''# New Section'' \<and>
      selection editor_empty = None \<and> selection e' = Some (14, 14) \<and>
      getSelectedText (Some e') = [] \<and> undos editor_empty = [] \<and> length (undos e') = 1"
    by auto
  ultimately show ?thesis by blast
qed

text \<open>
  C8 as stated fails: appending to an empty document that has no selection leaves the
  editor with a selection, the caret behind the appended block.
\<close>

theorem C8_selection_appears_counterexample:
  "selection editor_empty = None \<and>
   map_option selection (res_state (applySuggestion
      (new_suggestion 41 (JStr ''append'') (JStr ''# New Section'') JUndefined ''go'')
      (Some editor_empty))) = Some (Some (14, 14))"
  by (simp add: append_to_empty) (simp add: editor_empty_def)

section \<open>Rejecting\<close>

lemma undoLastChange_Some:
  "undoLastChange (Some e) = Some (if undos e = [] then e else ed_undo e)"
  by (simp add: undoLastChange_def)

lemma editorRef_rejectSuggestion [simp]: "editorRef (rejectSuggestion now w) = editorRef w"
  by (simp add: rejectSuggestion_def split: option.splits)

lemma editorRef_acceptSuggestion [simp]: "editorRef (acceptSuggestion now w) = editorRef w"
  by (simp add: acceptSuggestion_def split: option.splits)

lemma inline_reject_editor:
  "editorRef (snd (inline_handleReject now (st, w))) =
     map_option ed_flush (undoLastChange (editorRef w))"
  by (simp add: inline_handleReject_def)

lemma hello_on_typed:
  "applySuggestion sg_hello (Some editor_typed) =
     Ok (Some (editor_typed_hello\<lparr>operations := Suc 0\<rparr>))"
  by (simp add: sg_hello_def apply_new_suggestion typed_state ed_insertText_def
      delete_selected_def ed_apply_def transform_def continues_def editor_typed_hello_def)

lemma flush_typed_hello: "ed_flush (editor_typed_hello\<lparr>operations := n\<rparr>) = editor_typed_hello"
  by (simp add: ed_flush_def editor_typed_hello_def)

lemma hello_reply_on_typed:
  "editorRef (handleSendMessage_reply 41 42 ''go''
      (Response reply_insert_hello (Some parsed_insert_hello)) app_typed) =
   Some editor_typed_hello"
proof -
  have e: "editorRef app_typed = Some editor_typed"
    by (simp add: app_typed_def)
  have "applySuggestion (new_suggestion 41 (JStr ''insert'') (JStr ''Hello'') (JStr ''greeting'') ''go'')
      (editorRef app_typed) = Ok (Some (editor_typed_hello\<lparr>operations := Suc 0\<rparr>))"
    unfolding e using hello_on_typed by (simp add: sg_hello_def)
  then show ?thesis
    by (simp add: reply_Proposal [OF classify_insert_hello] flush_typed_hello)
qed

lemma undo_typed_hello:
  "undos editor_typed_hello \<noteq> []" "doc (ed_undo editor_typed_hello) = []"
  by (simp_all add: editor_typed_hello_def ed_undo_def Let_def transform_def
      setSelection_def set_selection_def)

text \<open>
  C1, evaluated on the chat flow. The user has typed \<open>Scope: \<close> into an empty
  document, the assistant's Proposal inserts \<open>Hello\<close> at the caret, and the user
  clicks Reject under the message with no edit in between. The insert continued the
  user's typing, so the editor's history put it into the batch of that typing; the one
  undo of the reject takes the whole batch back, and the document is empty instead of
  \<open>Scope: \<close> again.
\<close>

theorem C1_reject_undoes_typing_too:
  "doc editor_typed = ''Scope: '' \<and>
   editorRef app_typed = Some editor_typed \<and>
   doc editor_typed_hello = ''Scope: Hello'' \<and>
   editorRef (handleSendMessage_reply 41 42 ''go''
      (Response reply_insert_hello (Some parsed_insert_hello)) app_typed) =
     Some editor_typed_hello \<and>
   map_option doc (editorRef (snd (inline_clickReject 50
      (pending, handleSendMessage_reply 41 42 ''go''
         (Response reply_insert_hello (Some parsed_insert_hello)) app_typed)))) = Some []"
proof -
  have "doc editor_typed = ''Scope: ''"
    by (simp add: typed_state)
  moreover have "editorRef app_typed = Some editor_typed"
    by (simp add: app_typed_def)
  moreover have "doc editor_typed_hello = ''Scope: Hello''"
    by (simp add: editor_typed_hello_def)
  moreover have "map_option doc (editorRef (snd (inline_clickReject 50
      (pending, handleSendMessage_reply 41 42 ''go''
         (Response reply_insert_hello (Some parsed_insert_hello)) app_typed)))) = Some []"
    by (simp add: inline_clickReject_def inline_reject_editor hello_reply_on_typed
        undoLastChange_Some undo_typed_hello ed_flush_def)
  ultimately show ?thesis
    using hello_reply_on_typed by simp
qed

section \<open>Accepting\<close>


lemma no_pending_noop:
  assumes "pendingSuggestion w = None"
  shows "acceptSuggestion now w = w" and "rejectSuggestion now w = w"
    and "panel_clickAccept now w = w" and "panel_clickReject now w = w"
  using assms
  by (simp_all add: acceptSuggestion_def rejectSuggestion_def panel_clickAccept_def
      panel_clickReject_def)

lemma resolved_no_pending [simp]:
  "pendingSuggestion (acceptSuggestion now w) = None"
  "pendingSuggestion (rejectSuggestion now w) = None"
  by (simp_all add: acceptSuggestion_def rejectSuggestion_def split: option.splits)

lemma second_store_call:
  "acceptSuggestion t2 (acceptSuggestion t1 w) = acceptSuggestion t1 w"
  "rejectSuggestion t2 (acceptSuggestion t1 w) = acceptSuggestion t1 w"
  "acceptSuggestion t2 (rejectSuggestion t1 w) = rejectSuggestion t1 w"
  "rejectSuggestion t2 (rejectSuggestion t1 w) = rejectSuggestion t1 w"
  by (simp_all add: no_pending_noop)

lemma inline_second_click:
  assumes "fst sw \<noteq> pending"
  shows "inline_clickAccept t2 sw = sw" and "inline_clickReject t2 sw = sw"
  using assms by (simp_all add: inline_clickAccept_def inline_clickReject_def)

lemma applied_state:
  "editorRef app_applied = Some editor_applied" "pendingSuggestion app_applied = None"
  "suggestionHistory app_applied = []"
  by (simp_all add: app_applied_def app0_def)



section \<open>Resolving twice\<close>

text \<open>
  C3, evaluated on the chat flow. The suggestion of the chat message has been applied
  and the user clicks Accept under the message, twice. The second click is a no-op, as
  claimed: the inline controls show no button any more, and the status, the store and
  the editor are what the first click left. But the first click has recorded nothing,
  because the store has no pending suggestion, so the suggestion history holds no entry
  for the suggestion, not one.
\<close>

theorem C3_double_accept_leaves_no_entry:
  "pendingSuggestion app_applied = None \<and>
   inline_clickAccept 50 (pending, app_applied) = (st_accepted, app_applied) \<and>
   inline_clickAccept 51 (inline_clickAccept 50 (pending, app_applied)) =
     inline_clickAccept 50 (pending, app_applied) \<and>
   suggestionHistory (snd (inline_clickAccept 51 (inline_clickAccept 50 (pending, app_applied)))) = []"
proof -
  have f: "inline_clickAccept 50 (pending, app_applied) = (st_accepted, app_applied)"
    by (simp add: inline_clickAccept_def inline_handleAccept_def no_pending_noop applied_state)
  have s: "inline_clickAccept 51 (st_accepted, app_applied) = (st_accepted, app_applied)"
    by (simp add: inline_second_click)
  from f s applied_state show ?thesis by simp
qed

section \<open>Rejecting with an empty undo history\<close>

lemma reply_keeps_pending:
  "pendingSuggestion (handleSendMessage_reply tS tM userText rep w) = pendingSuggestion w"
  by (simp add: handleSendMessage_reply_def addChatMessage_def setClaudeTyping_def Let_def
      split: reply.splits classification.splits res.splits)

lemma send_keeps_pending:
  "pendingSuggestion (fst (handleSendMessage now w)) = pendingSuggestion w"
  by (simp add: handleSendMessage_def Let_def addChatMessage_def setClaudeTyping_def)

lemma inline_reject_without_pending:
  assumes "pendingSuggestion w = None"
  shows "suggestionHistory (snd (inline_handleReject now (st, w))) = suggestionHistory w"
  using assms by (simp add: inline_handleReject_def rejectSuggestion_def)

text \<open>
  C9, evaluated on the chat flow. The suggestion of the chat message has been applied,
  the user has undone it with the editor's own undo, so the undo history is empty, and
  then clicks Reject under the message. The handler does not fail and the undo step
  leaves the editor as it is, but the store is returned unchanged: the suggestion
  history is still empty, because the chat panel never makes its suggestion the pending
  one. The only trace of the rejection is the status of the inline controls. On the same
  state with the suggestion pending, the panel's reject does record it.
\<close>

theorem C9_inline_reject_not_recorded:
  "editorRef app_undone = Some (ed_flush (ed_undo editor_applied)) \<and>
   undos (ed_flush (ed_undo editor_applied)) = [] \<and>
   pendingSuggestion app_undone = None \<and>
   inline_clickReject 50 (pending, app_undone) = (st_rejected, app_undone) \<and>
   suggestionHistory (snd (inline_clickReject 50 (pending, app_undone))) = [] \<and>
   suggestionHistory (panel_clickReject 50 (app_undone\<lparr>pendingSuggestion := Some sg_hello\<rparr>)) =
     [\<lparr>r_suggestion = sg_hello, r_status = rejected, r_acceptedAt = None,
       r_rejectedAt = Some 50\<rparr>]"
proof -
  have e: "editorRef app_undone = Some editor_undone" "pendingSuggestion app_undone = None"
    "suggestionHistory app_undone = []"
    by (simp_all add: app_undone_def app_applied_def app0_def)
  have u: "undos editor_undone = []" by (simp add: editor_undone_def)
  have fl: "ed_flush editor_undone = editor_undone"
    by (simp add: ed_flush_def editor_undone_def)
  have k: "app_undone\<lparr>editorRef := Some editor_undone\<rparr> = app_undone"
    by (simp add: app_undone_def)
  have i: "inline_clickReject 50 (pending, app_undone) = (st_rejected, app_undone)"
    by (simp add: inline_clickReject_def inline_handleReject_def e undoLastChange_Some u fl k
        no_pending_noop)
  have a: "s_applied sg_hello" by (simp add: sg_hello_def new_suggestion_def)
  have p: "suggestionHistory (panel_clickReject 50 (app_undone\<lparr>pendingSuggestion := Some sg_hello\<rparr>)) =
     [\<lparr>r_suggestion = sg_hello, r_status = rejected, r_acceptedAt = None,
       r_rejectedAt = Some 50\<rparr>]"
    by (simp add: panel_clickReject_def panel_handleReject_def a rejectSuggestion_def e)
  from e u i p show ?thesis by (simp add: native_undo)
qed


end
